theory Spec2Isabelle
  imports Main
begin

section \<open>Values and truthiness\<close>

text \<open>
  The form-state engine hands the adapter its error messages as plain JavaScript
  values: \<open>undefined\<close> when there is none, usually a string when there is one. The
  adapter tests them the way JavaScript does (\<open>if (error)\<close>, \<open>!!errorMessage\<close>), so the
  model keeps the values and their truthiness. Numbers are restricted to integers;
  an object is a bare reference.
\<close>

datatype jsval =
    JUndefined
  | JNull
  | JBool bool
  | JNum int
  | JStr string
  | JObject nat

fun truthy :: "jsval \<Rightarrow> bool" where
  "truthy JUndefined = False"
| "truthy JNull = False"
| "truthy (JBool b) = b"
| "truthy (JNum n) = (n \<noteq> 0)"
| "truthy (JStr s) = (s \<noteq> [])"
| "truthy (JObject r) = True"

section \<open>FormFieldAdapter: which error message is active\<close>

text \<open>
  The \<open>meta\<close> object of a field and the props of \<open>FormFieldAdapter\<close> that the error
  display reads. The flags are booleans (the adapter's \<open>propTypes\<close> and the engine's
  field state); \<open>error\<close> and \<open>submitError\<close> are values.
\<close>

record meta =
  touched :: bool
  error :: jsval
  submitError :: jsval
  submitting :: bool
  dirty :: bool
  dirtySinceLastSubmit :: bool
  active :: bool

record props =
  required :: bool
  hideValidationError :: bool
  hideErrorWhileActive :: bool
  meta :: meta

text \<open>The two conditions of the \<open>if\<close> / \<open>else if\<close> of the adapter.\<close>

definition localErrorEligible :: "props \<Rightarrow> bool" where
  "localErrorEligible p =
     (touched (meta p) \<and> truthy (error (meta p)) \<and> (dirty (meta p) \<or> required p))"

definition submitErrorEligible :: "props \<Rightarrow> bool" where
  "submitErrorEligible p =
     (truthy (submitError (meta p)) \<and> \<not> dirtySinceLastSubmit (meta p)
      \<and> \<not> submitting (meta p))"

text \<open>
  \<open>errorMessage\<close> is the variable of that name after the conditional: \<open>null\<close> at
  first, assigned at most once.
\<close>

definition errorMessage :: "props \<Rightarrow> jsval" where
  "errorMessage p =
     (if localErrorEligible p then
        (if \<not> hideValidationError p then error (meta p) else JNull)
      else if submitErrorEligible p then submitError (meta p)
      else JNull)"

text \<open>
  Which assignment to \<open>errorMessage\<close> ran: the same conditional, recording the
  branch instead of the value.
\<close>

datatype assignment = Unassigned | FromError | FromSubmitError

definition messageSource :: "props \<Rightarrow> assignment" where
  "messageSource p =
     (if localErrorEligible p then
        (if \<not> hideValidationError p then FromError else Unassigned)
      else if submitErrorEligible p then FromSubmitError
      else Unassigned)"

text \<open>\<open>showErrorPopup\<close>: the \<open>open\<close> prop of the popup that holds the message.\<close>

definition showErrorPopup :: "props \<Rightarrow> bool" where
  "showErrorPopup p =
     (truthy (errorMessage p) \<and> (\<not> hideErrorWhileActive p \<or> \<not> active (meta p)))"

text \<open>
  \<open>handleChange\<close>: the change handler given to the wrapped component. The engine's
  \<open>input.onChange\<close> is an effect; the model records each call with its argument list.
  \<open>getValue\<close> is \<open>null\<close> by default (\<open>None\<close>) or a function of the event's arguments.
\<close>

type_synonym 'a onChangeCalls = "'a list list"

definition handleChange ::
  "('a list \<Rightarrow> 'a) option \<Rightarrow> 'a list \<Rightarrow> 'a onChangeCalls \<Rightarrow> 'a onChangeCalls" where
  "handleChange getValue args calls =
     (case getValue of
        Some g \<Rightarrow> calls @ [[g args]]
      | None \<Rightarrow> calls @ [args])"

text \<open>The first argument a call received; \<open>None\<close> when it was called with none.\<close>

fun firstArgument :: "'a list \<Rightarrow> 'a option" where
  "firstArgument [] = None"
| "firstArgument (a # rest) = Some a"

section \<open>FinalField: the validate prop\<close>

text \<open>
  A validation rule maps a field value to \<open>undefined\<close> (the value passes) or to an
  error message (it fails).
\<close>

type_synonym 'v validator = "'v \<Rightarrow> jsval"

text \<open>
  Modelled from the spec: \<open>validators.chain\<close>, of the module \<open>./validators\<close> that is
  not among the source files. The spec has the chained rules evaluated "by running
  each in turn and returning the first failure".
\<close>

definition chain :: "'v validator \<Rightarrow> 'v validator \<Rightarrow> 'v validator" where
  "chain first second = (\<lambda>v. if truthy (first v) then first v else second v)"

text \<open>
  The \<open>validate\<close> key of the caller's remaining props (\<open>rest\<close>): not there, there with
  \<open>undefined\<close> or \<open>null\<close>, or there with a rule.
\<close>

datatype 'v validateProp = NoKey | Nullish | Rule "'v validator"

text \<open>
  The two \<open>if\<close> statements that fill \<open>extraProps\<close>. \<open>validators.required\<close> belongs
  to the same missing module and is the parameter \<open>requiredRule\<close>. The result is
  \<open>extraProps.validate\<close> (\<open>None\<close>: never assigned), \<open>extraProps.required\<close> (\<open>True\<close>
  or never assigned) and the \<open>validate\<close> key of \<open>rest\<close> afterwards.
\<close>

definition FinalField_extraProps ::
  "'v validator \<Rightarrow> bool \<Rightarrow> 'v validateProp
     \<Rightarrow> 'v validator option \<times> bool \<times> 'v validateProp" where
  "FinalField_extraProps requiredRule req restValidate =
     (let validate0 = (if req then Some requiredRule else None) in
      case (validate0, restValidate) of
        (Some own, Rule custom) \<Rightarrow> (Some (chain own custom), req, NoKey)
      | _ \<Rightarrow> (validate0, req, restValidate))"

text \<open>
  The \<open>validate\<close> prop the \<open>Field\<close> element receives: \<open>extraProps\<close> is spread first
  and \<open>rest\<close> after it, so a key of \<open>rest\<close> wins. \<open>None\<close> stands for no rule
  (\<open>undefined\<close> or \<open>null\<close>).
\<close>

definition FinalField_validate ::
  "'v validator \<Rightarrow> bool \<Rightarrow> 'v validateProp \<Rightarrow> 'v validator option" where
  "FinalField_validate requiredRule req restValidate =
     (case FinalField_extraProps requiredRule req restValidate of
        (validate, _, rest') \<Rightarrow>
          (case rest' of
             NoKey \<Rightarrow> validate
           | Nullish \<Rightarrow> None
           | Rule custom \<Rightarrow> Some custom))"

section \<open>FinalField: change notification\<close>

text \<open>
  The function given to \<open>OnChange\<close> as its child. The caller's \<open>onChange\<close> is an
  effect; the model records each call as the pair (value, prev). \<open>isEqual\<close> is
  lodash's deep equality, a parameter.
\<close>

type_synonym 'v changeCalls = "('v \<times> 'v) list"

definition changeListener ::
  "('v \<Rightarrow> 'v \<Rightarrow> bool) \<Rightarrow> 'v \<Rightarrow> 'v \<Rightarrow> 'v changeCalls \<Rightarrow> 'v changeCalls" where
  "changeListener isEqual v prev calls =
     (if \<not> isEqual v prev then calls @ [(v, prev)] else calls)"

text \<open>
  The \<open>OnChange\<close> component comes from the library react-final-form-listeners. It
  watches the field's value from one render to the next and calls its child with
  the new and the previous value; \<open>fires\<close>, a parameter, says at which steps it does
  so (the library: when the two are not identical, \<open>value !== previous\<close>). The
  previous value of a step is the value of the render before it.
\<close>

fun OnChange ::
  "('v \<Rightarrow> 'v \<Rightarrow> bool) \<Rightarrow> ('v \<Rightarrow> 'v \<Rightarrow> 's \<Rightarrow> 's) \<Rightarrow> 'v \<Rightarrow> 'v list \<Rightarrow> 's \<Rightarrow> 's" where
  "OnChange fires child prev [] s = s"
| "OnChange fires child prev (v # vs) s =
     OnChange fires child v vs (if fires v prev then child v prev s else s)"

text \<open>
  The calls of the caller's \<open>onChange\<close> over a run of renders: the field starts at
  \<open>initial\<close> and takes the values \<open>vs\<close> in turn. Without a callback
  (\<open>hasOnChange\<close> false) no \<open>OnChange\<close> element is rendered.
\<close>

definition FinalField_onChange ::
  "('v \<Rightarrow> 'v \<Rightarrow> bool) \<Rightarrow> ('v \<Rightarrow> 'v \<Rightarrow> bool) \<Rightarrow> bool \<Rightarrow> 'v \<Rightarrow> 'v list \<Rightarrow> 'v changeCalls" where
  "FinalField_onChange fires isEqual hasOnChange initial vs =
     (if hasOnChange then OnChange fires (changeListener isEqual) initial vs [] else [])"

text \<open>The steps of such a run, each as (value, prev).\<close>

fun transitions :: "'v \<Rightarrow> 'v list \<Rightarrow> ('v \<times> 'v) list" where
  "transitions prev [] = []"
| "transitions prev (v # vs) = (v, prev) # transitions v vs"

section \<open>FinalSubmitButton\<close>

text \<open>The three form-wide signals the button subscribes to.\<close>

record formState =
  hasValidationErrors :: bool
  pristine :: bool
  formSubmitting :: bool

text \<open>The props of the rendered \<open>Form.Button\<close> that depend on them.\<close>

record buttonProps =
  disabled :: bool
  loading :: bool

definition FinalSubmitButton :: "formState \<Rightarrow> buttonProps" where
  "FinalSubmitButton fs =
     \<lparr>disabled = (hasValidationErrors fs \<or> pristine fs \<or> formSubmitting fs),
      loading = formSubmitting fs\<rparr>"

section \<open>The page bootstrap\<close>

text \<open>
  The \<open>DOMContentLoaded\<close> handler. A document is what \<open>querySelector\<close> finds in it;
  an element carries its \<open>dataset\<close>. Reading a property of \<open>null\<close> throws a
  \<open>TypeError\<close>, which ends the handler.
\<close>

record element =
  dataset :: "string \<Rightarrow> string option"

type_synonym document = "string \<Rightarrow> element option"

datatype jsError = TypeError

text \<open>
  How the handler ends when nothing throws: the guard's \<open>return null\<close>, or the
  component rendered into the element with its \<open>eventId\<close> prop.
\<close>

datatype 'n outcome = ReturnedNull | Rendered 'n element

text \<open>
  The handler, statement by statement: the lookup, the read of
  \<open>fileTypeInterface.dataset.eventId\<close>, the guard, the render. JavaScript's
  \<open>parseInt(_, 10)\<close> is the parameter \<open>parseInt\<close>; it is handed the attribute, or
  \<open>None\<close> for \<open>undefined\<close> when the element has no such attribute.
\<close>

definition readDataset :: "element option \<Rightarrow> jsError + (string \<Rightarrow> string option)" where
  "readDataset e = (case e of None \<Rightarrow> Inl TypeError | Some el \<Rightarrow> Inr (dataset el))"

definition onDOMContentLoaded ::
  "(string option \<Rightarrow> 'n) \<Rightarrow> document \<Rightarrow> jsError + 'n outcome" where
  "onDOMContentLoaded parseInt document =
     (let fileTypeInterface = document ''#editing-filetypes'' in
      case readDataset fileTypeInterface of
        Inl err \<Rightarrow> Inl err
      | Inr ds \<Rightarrow>
          (let eventId = parseInt (ds ''eventId'') in
           case fileTypeInterface of
             None \<Rightarrow> Inr ReturnedNull
           | Some el \<Rightarrow> Inr (Rendered eventId el)))"

section \<open>Sample states\<close>

text \<open>
  A field nobody has touched, without errors, and an adapter with every optional
  flag at its default; the concrete instances below are updates of these.
\<close>

definition untouchedMeta :: meta where
  "untouchedMeta =
     \<lparr>touched = False, error = JUndefined, submitError = JUndefined,
      submitting = False, dirty = False, dirtySinceLastSubmit = False,
      active = False\<rparr>"

definition defaultProps :: props where
  "defaultProps =
     \<lparr>required = False, hideValidationError = False, hideErrorWhileActive = False,
      meta = untouchedMeta\<rparr>"

section \<open>Facts shared by the theorems\<close>

lemma errorMessage_by_source:
  "errorMessage p =
     (case messageSource p of
        Unassigned \<Rightarrow> JNull
      | FromError \<Rightarrow> error (meta p)
      | FromSubmitError \<Rightarrow> submitError (meta p))"
  by (simp add: errorMessage_def messageSource_def)

lemma truthy_errorMessage:
  "truthy (errorMessage p) = (messageSource p \<noteq> Unassigned)"
  by (simp add: errorMessage_def messageSource_def localErrorEligible_def
      submitErrorEligible_def)

lemma OnChange_changeListener:
  assumes "\<And>v p. \<not> isEqual v p \<Longrightarrow> fires v p"
  shows "OnChange fires (changeListener isEqual) prev vs calls =
           calls @ filter (\<lambda>(v, p). \<not> isEqual v p) (transitions prev vs)"
  using assms
  by (induction vs arbitrary: prev calls) (auto simp: changeListener_def)

lemma FinalField_validate_cases:
  "FinalField_validate requiredRule req restValidate =
     (case restValidate of
        NoKey \<Rightarrow> (if req then Some requiredRule else None)
      | Nullish \<Rightarrow> None
      | Rule custom \<Rightarrow> Some (if req then chain requiredRule custom else custom))"
  by (cases restValidate)
     (simp_all add: FinalField_validate_def FinalField_extraProps_def)

lemmas sample_defs = untouchedMeta_def defaultProps_def

lemmas adapter_defs =
  errorMessage_def messageSource_def localErrorEligible_def submitErrorEligible_def
  showErrorPopup_def

section \<open>The error display of the adapter\<close>

text \<open>
  Claim C1. When the field was touched, a local error is present, the field is dirty
  or marked required, and \<open>hideValidationError\<close> is off, the adapter selects the local
  error as the active message: the first assignment runs and \<open>errorMessage\<close> holds
  \<open>error\<close>. Present is what the adapter's own test of \<open>error\<close> reads as present, a
  truthy value; the engine reports a field without error as \<open>undefined\<close>.
\<close>

theorem adapter_selects_local_error:
  assumes "touched (meta p)"
    and "truthy (error (meta p))"
    and "dirty (meta p) \<or> required p"
    and "\<not> hideValidationError p"
  shows "messageSource p = FromError \<and> errorMessage p = error (meta p)
         \<and> truthy (errorMessage p)"
  using assms
  by (simp add: errorMessage_def messageSource_def localErrorEligible_def)

text \<open>
  A required field left empty: touched, never edited, with a submit error as well.
  The local error is the one selected.
\<close>

theorem adapter_selects_local_error_witness:
  "messageSource
     (defaultProps\<lparr>required := True,
        meta := untouchedMeta\<lparr>touched := True,
          error := JStr ''This field is required'',
          submitError := JStr ''Rejected by the server''\<rparr>\<rparr>)
     = FromError
   \<and> errorMessage
     (defaultProps\<lparr>required := True,
        meta := untouchedMeta\<lparr>touched := True,
          error := JStr ''This field is required'',
          submitError := JStr ''Rejected by the server''\<rparr>\<rparr>)
     = JStr ''This field is required''"
  using adapter_selects_local_error
    [of "defaultProps\<lparr>required := True,
        meta := untouchedMeta\<lparr>touched := True,
          error := JStr ''This field is required'',
          submitError := JStr ''Rejected by the server''\<rparr>\<rparr>"]
  by (simp add: sample_defs)

text \<open>
  Claim C2, as stated: with \<open>hideValidationError\<close> on, no error message is ever
  shown, whatever the other flags. The flag is read only inside the first branch;
  on an untouched field whose last submission left a submit error, the second
  branch selects that error and the popup opens.
\<close>

theorem hideValidationError_submit_error_shown:
  "hideValidationError
     \<lparr>required = False, hideValidationError = True, hideErrorWhileActive = False,
      meta = \<lparr>touched = False, error = JUndefined,
               submitError = JStr ''Rejected by the server'', submitting = False,
               dirty = False, dirtySinceLastSubmit = False, active = False\<rparr>\<rparr>
   \<and> errorMessage
     \<lparr>required = False, hideValidationError = True, hideErrorWhileActive = False,
      meta = \<lparr>touched = False, error = JUndefined,
               submitError = JStr ''Rejected by the server'', submitting = False,
               dirty = False, dirtySinceLastSubmit = False, active = False\<rparr>\<rparr>
     = JStr ''Rejected by the server''
   \<and> showErrorPopup
     \<lparr>required = False, hideValidationError = True, hideErrorWhileActive = False,
      meta = \<lparr>touched = False, error = JUndefined,
               submitError = JStr ''Rejected by the server'', submitting = False,
               dirty = False, dirtySinceLastSubmit = False, active = False\<rparr>\<rparr>"
  by (simp add: adapter_defs)

text \<open>
  Claim C2, amended. With \<open>hideValidationError\<close> on, the local error is never the
  active message, whatever the other flags. A message is active only when the
  first branch's condition fails and a submit error is present, the value unchanged
  since the last submit and no submission in flight; it is then the submit error.
  In every other state no message is active and none is shown.
\<close>

theorem hideValidationError_hides_local_error:
  assumes "hideValidationError p"
  shows "messageSource p \<noteq> FromError
         \<and> errorMessage p =
             (if \<not> (touched (meta p) \<and> truthy (error (meta p))
                      \<and> (dirty (meta p) \<or> required p))
                 \<and> truthy (submitError (meta p))
                 \<and> \<not> dirtySinceLastSubmit (meta p) \<and> \<not> submitting (meta p)
              then submitError (meta p) else JNull)
         \<and> (showErrorPopup p \<longrightarrow> messageSource p = FromSubmitError)"
  using assms
  by (auto simp: adapter_defs)

text \<open>
  An edited required field whose local error is hidden: nothing is active, nothing
  is shown.
\<close>

theorem hideValidationError_hides_local_error_witness:
  "errorMessage
     (defaultProps\<lparr>required := True, hideValidationError := True,
        meta := untouchedMeta\<lparr>touched := True, dirty := True,
          error := JStr ''This field is required''\<rparr>\<rparr>)
     = JNull
   \<and> \<not> showErrorPopup
     (defaultProps\<lparr>required := True, hideValidationError := True,
        meta := untouchedMeta\<lparr>touched := True, dirty := True,
          error := JStr ''This field is required''\<rparr>\<rparr>)"
  using hideValidationError_hides_local_error
    [of "defaultProps\<lparr>required := True, hideValidationError := True,
        meta := untouchedMeta\<lparr>touched := True, dirty := True,
          error := JStr ''This field is required''\<rparr>\<rparr>"]
  by (simp add: sample_defs showErrorPopup_def)



text \<open>
  Claim C4. A selected message is rendered exactly when \<open>hideErrorWhileActive\<close> is
  unset or the field is not active. With \<open>hideErrorWhileActive\<close> set on an active
  field nothing is rendered, even if a message was selected; and nothing is
  rendered when none was selected.
\<close>

theorem popup_open_iff:
  "(messageSource p \<noteq> Unassigned \<longrightarrow>
      showErrorPopup p = (\<not> hideErrorWhileActive p \<or> \<not> active (meta p)))
   \<and> (hideErrorWhileActive p \<and> active (meta p) \<longrightarrow> \<not> showErrorPopup p)
   \<and> (messageSource p = Unassigned \<longrightarrow> \<not> showErrorPopup p)"
  by (auto simp: showErrorPopup_def truthy_errorMessage)

text \<open>
  A submit error on a field with \<open>hideErrorWhileActive\<close>: hidden while the field has
  the focus, shown once it has lost it.
\<close>

theorem popup_open_iff_witness:
  "messageSource
     (defaultProps\<lparr>hideErrorWhileActive := True,
        meta := untouchedMeta\<lparr>active := True,
          submitError := JStr ''Rejected by the server''\<rparr>\<rparr>)
     = FromSubmitError
   \<and> \<not> showErrorPopup
     (defaultProps\<lparr>hideErrorWhileActive := True,
        meta := untouchedMeta\<lparr>active := True,
          submitError := JStr ''Rejected by the server''\<rparr>\<rparr>)
   \<and> showErrorPopup
     (defaultProps\<lparr>hideErrorWhileActive := True,
        meta := untouchedMeta\<lparr>active := False,
          submitError := JStr ''Rejected by the server''\<rparr>\<rparr>)"
  using popup_open_iff
    [of "defaultProps\<lparr>hideErrorWhileActive := True,
        meta := untouchedMeta\<lparr>active := True,
          submitError := JStr ''Rejected by the server''\<rparr>\<rparr>"]
    popup_open_iff
    [of "defaultProps\<lparr>hideErrorWhileActive := True,
        meta := untouchedMeta\<lparr>active := False,
          submitError := JStr ''Rejected by the server''\<rparr>\<rparr>"]
  by (simp add: sample_defs adapter_defs)

text \<open>
  Claim C9. At every render at most one message is active, and the two branches
  exclude each other: the local error is selected only under the first branch's
  condition, the submit error only when that condition fails. So whenever the first
  branch's condition holds the submit error is not selected, also when
  \<open>hideValidationError\<close> suppresses the local error; then no message is active and
  none is shown.
\<close>

theorem selection_branches_exclusive:
  "(messageSource p = FromError \<longrightarrow>
      touched (meta p) \<and> truthy (error (meta p)) \<and> (dirty (meta p) \<or> required p))
   \<and> (touched (meta p) \<and> truthy (error (meta p)) \<and> (dirty (meta p) \<or> required p)
        \<longrightarrow> messageSource p \<noteq> FromSubmitError
            \<and> (errorMessage p = error (meta p) \<or> errorMessage p = JNull))
   \<and> (touched (meta p) \<and> truthy (error (meta p)) \<and> (dirty (meta p) \<or> required p)
        \<and> hideValidationError p
        \<longrightarrow> messageSource p = Unassigned \<and> errorMessage p = JNull
            \<and> \<not> showErrorPopup p)"
  by (auto simp: adapter_defs)

text \<open>
  A required field, touched, with a local error and an eligible submit error: with
  the local error hidden nothing is shown, the submit error included.
\<close>

theorem selection_branches_exclusive_witness:
  "errorMessage
     (defaultProps\<lparr>required := True, hideValidationError := True,
        meta := untouchedMeta\<lparr>touched := True,
          error := JStr ''This field is required'',
          submitError := JStr ''Rejected by the server''\<rparr>\<rparr>)
     = JNull
   \<and> \<not> showErrorPopup
     (defaultProps\<lparr>required := True, hideValidationError := True,
        meta := untouchedMeta\<lparr>touched := True,
          error := JStr ''This field is required'',
          submitError := JStr ''Rejected by the server''\<rparr>\<rparr>)"
  using selection_branches_exclusive
    [of "defaultProps\<lparr>required := True, hideValidationError := True,
        meta := untouchedMeta\<lparr>touched := True,
          error := JStr ''This field is required'',
          submitError := JStr ''Rejected by the server''\<rparr>\<rparr>"]
  by (simp add: sample_defs)

section \<open>The change handler of the adapter\<close>

text \<open>
  Claim C8. On a change event, when \<open>getValue\<close> was supplied the adapter calls the
  engine's change notifier once, with \<open>getValue\<close> applied to the event's arguments;
  when none was supplied it calls the notifier once with the event's own arguments,
  so the first argument reaches it unchanged.
\<close>

theorem handleChange_forwards:
  "handleChange (Some g) args calls = calls @ [[g args]]
   \<and> handleChange None args calls = calls @ [args]
   \<and> map firstArgument (handleChange None (a # others) []) = [Some a]"
  by (simp add: handleChange_def)

text \<open>
  A dropdown's change event carries the DOM event and a data object; the dropdown
  adapter's \<open>getValue\<close> takes the value out of the second. Strings stand for both.
\<close>

theorem handleChange_forwards_witness:
  "handleChange (Some (\<lambda>args. args ! 1)) [''event'', ''blue''] [] = [[''blue'']]
   \<and> handleChange None [''event'', ''blue''] [] = [[''event'', ''blue'']]
   \<and> map firstArgument (handleChange None [''event'', ''blue''] []) = [Some ''event'']"
  using handleChange_forwards
    [of "\<lambda>args. args ! 1" "[''event'', ''blue'']" "[]" "''event''" "[''blue'']"]
  by simp

section \<open>The validate prop of FinalField\<close>

text \<open>
  Claim C5. A wrapper marked required attaches the value-must-be-present rule, and
  chains it with a rule the caller supplied. What the \<open>Field\<close> of a required
  wrapper receives as \<open>validate\<close>: the required rule when the caller's props have
  no \<open>validate\<close> key; the chain of the required rule and the caller's rule, in that
  order, when the caller supplied one (the chained branch deletes the key from
  \<open>rest\<close>); and no rule at all when the caller's props carry the key with
  \<open>undefined\<close> or \<open>null\<close> in it: nothing is chained, the key stays in \<open>rest\<close>, and
  the spread of \<open>rest\<close> after \<open>extraProps\<close> overwrites the required rule, although
  the field is still marked required. The chain runs each rule in turn and returns
  the first failure; where one rule fails and the other passes it reports the
  failing rule's message, in either order.
\<close>

theorem required_field_validate_prop:
  "FinalField_validate requiredRule True restValidate =
     (case restValidate of
        NoKey \<Rightarrow> Some requiredRule
      | Nullish \<Rightarrow> None
      | Rule custom \<Rightarrow> Some (chain requiredRule custom))
   \<and> fst (FinalField_extraProps requiredRule True Nullish) = Some requiredRule
   \<and> fst (snd (FinalField_extraProps requiredRule True Nullish))
   \<and> FinalField_validate requiredRule True Nullish = None
   \<and> chain ruleA ruleB v = (if truthy (ruleA v) then ruleA v else ruleB v)
   \<and> (truthy (ruleA v) \<and> \<not> truthy (ruleB v) \<longrightarrow>
        chain ruleA ruleB v = ruleA v \<and> chain ruleB ruleA v = ruleA v)"
  by (cases restValidate)
     (simp_all add: FinalField_validate_cases FinalField_extraProps_def chain_def)

text \<open>
  A required text field whose caller passes \<open>validate\<close> as \<open>undefined\<close>: the \<open>Field\<close>
  receives no rule. The same field without the key receives the required rule.
  Rule A always fails, rule B always passes: chained in either order they report
  the failure of A.
\<close>

theorem required_field_validate_prop_witness:
  "FinalField_validate
       (\<lambda>v::string. if v = [] then JStr ''This field is required'' else JUndefined)
       True Nullish
     = None
   \<and> FinalField_validate
       (\<lambda>v::string. if v = [] then JStr ''This field is required'' else JUndefined)
       True NoKey
     = Some (\<lambda>v. if v = [] then JStr ''This field is required'' else JUndefined)
   \<and> chain (\<lambda>v. JStr ''A failed'') (\<lambda>v. JUndefined) ''abc'' = JStr ''A failed''
   \<and> chain (\<lambda>v. JUndefined) (\<lambda>v. JStr ''A failed'') ''abc'' = JStr ''A failed''"
  using required_field_validate_prop
    [of "\<lambda>v::string. if v = [] then JStr ''This field is required'' else JUndefined"
        "NoKey" "\<lambda>v. JStr ''A failed''" "\<lambda>v. JUndefined" "''abc''"]
  by simp

section \<open>The change notification of FinalField\<close>

text \<open>
  Claim C6. Over any run of field values, the caller's \<open>onChange\<close> is called exactly
  at the steps whose new value is not deeply equal to the previous one, with the
  new and the previous value, provided the listener component reports at least
  those steps. For the values 1, 1, 2, 2, 3 (numbers are deeply equal when they are
  equal) it is called twice, for 1 to 2 and for 2 to 3, whether the component
  reports every step or only the steps that change the value. Without a callback
  nothing is called.
\<close>

theorem onChange_called_on_deep_changes:
  assumes "\<And>v p. \<not> isEqual v p \<Longrightarrow> fires v p"
  shows "FinalField_onChange fires isEqual True initial vs =
           filter (\<lambda>(v, p). \<not> isEqual v p) (transitions initial vs)
         \<and> FinalField_onChange fires isEqual False initial vs = []
         \<and> FinalField_onChange (\<noteq>) (=) True (1::int) [1, 2, 2, 3] = [(2, 1), (3, 2)]
         \<and> FinalField_onChange (\<lambda>v p. True) (=) True (1::int) [1, 2, 2, 3]
             = [(2, 1), (3, 2)]
         \<and> length (FinalField_onChange (\<noteq>) (=) True (1::int) [1, 2, 2, 3]) = 2"
  using assms
  by (simp add: FinalField_onChange_def OnChange_changeListener changeListener_def)

text \<open>A text field typed into twice, with re-renders in between.\<close>

theorem onChange_called_on_deep_changes_witness:
  "FinalField_onChange (\<noteq>) (=) True ''a'' [''a'', ''ab'', ''ab'', ''ab'', ''abc'']
     = [(''ab'', ''a''), (''abc'', ''ab'')]"
proof -
  have reported: "\<And>v p :: string. \<not> v = p \<Longrightarrow> v \<noteq> p"
    by simp
  show ?thesis
    using onChange_called_on_deep_changes
      [of "(=)" "(\<noteq>)" "''a''" "[''a'', ''ab'', ''ab'', ''ab'', ''abc'']", OF reported]
    by simp
qed

section \<open>The submit button\<close>

text \<open>
  Claim C7. For every combination of the three form-wide signals, the submit
  button is disabled exactly when \<open>hasValidationErrors\<close>, \<open>pristine\<close> or \<open>submitting\<close>
  is true, enabled exactly when all three are false, and shows its loading
  indicator exactly when \<open>submitting\<close> is true.
\<close>

theorem submit_button_state:
  "disabled (FinalSubmitButton fs) =
     (hasValidationErrors fs \<or> pristine fs \<or> formSubmitting fs)
   \<and> (\<not> disabled (FinalSubmitButton fs)) =
       (\<not> hasValidationErrors fs \<and> \<not> pristine fs \<and> \<not> formSubmitting fs)
   \<and> loading (FinalSubmitButton fs) = formSubmitting fs"
  by (simp add: FinalSubmitButton_def)

text \<open>An edited, valid form at rest: the button is enabled and not loading.\<close>

theorem submit_button_state_witness:
  "\<not> disabled (FinalSubmitButton
       \<lparr>hasValidationErrors = False, pristine = False, formSubmitting = False\<rparr>)
   \<and> \<not> loading (FinalSubmitButton
       \<lparr>hasValidationErrors = False, pristine = False, formSubmitting = False\<rparr>)
   \<and> disabled (FinalSubmitButton
       \<lparr>hasValidationErrors = False, pristine = False, formSubmitting = True\<rparr>)
   \<and> loading (FinalSubmitButton
       \<lparr>hasValidationErrors = False, pristine = False, formSubmitting = True\<rparr>)"
  using submit_button_state
    [of "\<lparr>hasValidationErrors = False, pristine = False, formSubmitting = False\<rparr>"]
    submit_button_state
    [of "\<lparr>hasValidationErrors = False, pristine = False, formSubmitting = True\<rparr>"]
  by simp

section \<open>The page bootstrap\<close>

text \<open>
  Claim C10. The handler reads \<open>fileTypeInterface.dataset.eventId\<close> before it tests
  \<open>fileTypeInterface\<close>. On a page without the element \<open>#editing-filetypes\<close> the read
  throws and the handler ends with a \<open>TypeError\<close>; the guard's \<open>return null\<close> is
  reached on no page at all. With the element there, the component is rendered into
  it with the parsed event id.
\<close>

theorem bootstrap_fails_before_guard:
  "(document ''#editing-filetypes'' = None \<longrightarrow>
      onDOMContentLoaded parseInt document = Inl TypeError)
   \<and> onDOMContentLoaded parseInt document \<noteq> Inr ReturnedNull
   \<and> (document ''#editing-filetypes'' = Some el \<longrightarrow>
        onDOMContentLoaded parseInt document =
          Inr (Rendered (parseInt (dataset el ''eventId'')) el))"
  by (simp add: onDOMContentLoaded_def readDataset_def Let_def split: option.split)

text \<open>
  A page with no element at all, and a page with the element for event 42; the
  parser of the instance knows that one attribute value.
\<close>

theorem bootstrap_fails_before_guard_witness:
  "onDOMContentLoaded (\<lambda>attr. if attr = Some ''42'' then Some (42::int) else None)
       (\<lambda>selector. None)
     = Inl TypeError
   \<and> onDOMContentLoaded (\<lambda>attr. if attr = Some ''42'' then Some (42::int) else None)
       (\<lambda>selector. if selector = ''#editing-filetypes''
          then Some \<lparr>dataset = [''eventId'' \<mapsto> ''42'']\<rparr> else None)
     = Inr (Rendered (Some 42) \<lparr>dataset = [''eventId'' \<mapsto> ''42'']\<rparr>)"
  using bootstrap_fails_before_guard
      [of "\<lambda>selector. None"
          "\<lambda>attr. if attr = Some ''42'' then Some (42::int) else None"]
    bootstrap_fails_before_guard
      [of "\<lambda>selector. if selector = ''#editing-filetypes''
          then Some \<lparr>dataset = [''eventId'' \<mapsto> ''42'']\<rparr> else None"
          "\<lambda>attr. if attr = Some ''42'' then Some (42::int) else None"
          "\<lparr>dataset = [''eventId'' \<mapsto> ''42'']\<rparr>"]
  by simp

end
